theory Spec2Isabelle
  imports Complex_Main
begin

section \<open>Grain-size records of \<open>gsfile.py\<close>: data model\<close>

subsection \<open>Double-precision values\<close>

text \<open>
  The arrays of \<open>gsfile.py\<close> hold \<open>numpy.float64\<close> values. They are modelled as
  exact reals extended by the three special values of IEEE arithmetic. Finite arithmetic
  is exact (no rounding, no overflow, no signed zero); the special values follow the IEEE
  rules that numpy applies without raising: \<open>0/0\<close>, \<open>inf - inf\<close> and \<open>0 * inf\<close> are
  not-a-number, \<open>x/0\<close> is an infinity for \<open>x \<noteq> 0\<close>, and every comparison with
  not-a-number is false.
\<close>

datatype fl = Fin real | PInf | NInf | NaN

fun isnan :: "fl \<Rightarrow> bool" where
  "isnan NaN = True"
| "isnan _ = False"

fun fneg :: "fl \<Rightarrow> fl" where
  "fneg (Fin a) = Fin (- a)"
| "fneg PInf = NInf"
| "fneg NInf = PInf"
| "fneg NaN = NaN"

fun fadd :: "fl \<Rightarrow> fl \<Rightarrow> fl" where
  "fadd (Fin a) (Fin b) = Fin (a + b)"
| "fadd (Fin a) PInf = PInf"
| "fadd (Fin a) NInf = NInf"
| "fadd PInf (Fin b) = PInf"
| "fadd PInf PInf = PInf"
| "fadd PInf NInf = NaN"
| "fadd NInf (Fin b) = NInf"
| "fadd NInf PInf = NaN"
| "fadd NInf NInf = NInf"
| "fadd NaN _ = NaN"
| "fadd _ NaN = NaN"

definition fsub :: "fl \<Rightarrow> fl \<Rightarrow> fl" where
  "fsub a b = fadd a (fneg b)"

fun fmul :: "fl \<Rightarrow> fl \<Rightarrow> fl" where
  "fmul (Fin a) (Fin b) = Fin (a * b)"
| "fmul (Fin a) PInf = (if a = 0 then NaN else if 0 < a then PInf else NInf)"
| "fmul (Fin a) NInf = (if a = 0 then NaN else if 0 < a then NInf else PInf)"
| "fmul PInf (Fin b) = (if b = 0 then NaN else if 0 < b then PInf else NInf)"
| "fmul NInf (Fin b) = (if b = 0 then NaN else if 0 < b then NInf else PInf)"
| "fmul PInf PInf = PInf"
| "fmul PInf NInf = NInf"
| "fmul NInf PInf = NInf"
| "fmul NInf NInf = PInf"
| "fmul NaN _ = NaN"
| "fmul _ NaN = NaN"

fun fdiv :: "fl \<Rightarrow> fl \<Rightarrow> fl" where
  "fdiv (Fin a) (Fin b) =
     (if b \<noteq> 0 then Fin (a / b)
      else if a = 0 then NaN else if 0 < a then PInf else NInf)"
| "fdiv (Fin a) PInf = Fin 0"
| "fdiv (Fin a) NInf = Fin 0"
| "fdiv PInf (Fin b) = (if 0 \<le> b then PInf else NInf)"
| "fdiv NInf (Fin b) = (if 0 \<le> b then NInf else PInf)"
| "fdiv PInf PInf = NaN"
| "fdiv PInf NInf = NaN"
| "fdiv NInf PInf = NaN"
| "fdiv NInf NInf = NaN"
| "fdiv NaN _ = NaN"
| "fdiv _ NaN = NaN"

text \<open>\<open>x ** n\<close> for the literal exponents 2, 3 and 4 of the source.\<close>

fun fpow :: "fl \<Rightarrow> nat \<Rightarrow> fl" where
  "fpow x 0 = Fin 1"
| "fpow x (Suc 0) = x"
| "fpow x (Suc (Suc n)) = fmul x (fpow x (Suc n))"

fun fsqrt :: "fl \<Rightarrow> fl" where
  "fsqrt (Fin a) = (if 0 \<le> a then Fin (sqrt a) else NaN)"
| "fsqrt PInf = PInf"
| "fsqrt NInf = NaN"
| "fsqrt NaN = NaN"

fun flog2 :: "fl \<Rightarrow> fl" where
  "flog2 (Fin a) = (if 0 < a then Fin (log 2 a) else if a = 0 then NInf else NaN)"
| "flog2 PInf = PInf"
| "flog2 NInf = NaN"
| "flog2 NaN = NaN"

text \<open>Comparisons: \<open>==\<close>, \<open><=\<close> and \<open><\<close> on doubles.\<close>

fun feq :: "fl \<Rightarrow> fl \<Rightarrow> bool" where
  "feq (Fin a) (Fin b) = (a = b)"
| "feq PInf PInf = True"
| "feq NInf NInf = True"
| "feq _ _ = False"

fun fle :: "fl \<Rightarrow> fl \<Rightarrow> bool" where
  "fle NaN _ = False"
| "fle _ NaN = False"
| "fle (Fin a) (Fin b) = (a \<le> b)"
| "fle NInf _ = True"
| "fle _ PInf = True"
| "fle _ _ = False"

fun flt :: "fl \<Rightarrow> fl \<Rightarrow> bool" where
  "flt NaN _ = False"
| "flt _ NaN = False"
| "flt (Fin a) (Fin b) = (a < b)"
| "flt PInf _ = False"
| "flt _ NInf = False"
| "flt _ _ = True"

text \<open>\<open>np.sum\<close> / \<open>ndarray.sum\<close> / the builtin \<open>sum\<close>: a left fold from zero.\<close>

definition fsum :: "fl list \<Rightarrow> fl" where
  "fsum xs = foldl fadd (Fin 0) xs"

subsection \<open>Exceptions and numpy helpers\<close>

datatype error = IndexError | KeyError | TypeError | ValueError

text \<open>Sequencing of steps that may raise: the first exception ends the computation.\<close>

fun ebind :: "error + 'a \<Rightarrow> ('a \<Rightarrow> error + 'b) \<Rightarrow> error + 'b" where
  "ebind (Inl e) f = Inl e"
| "ebind (Inr x) f = f x"

fun mapE :: "('a \<Rightarrow> error + 'b) \<Rightarrow> 'a list \<Rightarrow> error + 'b list" where
  "mapE f [] = Inr []"
| "mapE f (x # xs) = ebind (f x) (\<lambda>y. ebind (mapE f xs) (\<lambda>ys. Inr (y # ys)))"

text \<open>
  An element-wise binary operation on two one-dimensional arrays: equal shapes combine
  pointwise, a length-one array is broadcast, any other pair of shapes raises
  \<open>ValueError\<close>.
\<close>

definition np_binop :: "(fl \<Rightarrow> fl \<Rightarrow> fl) \<Rightarrow> fl list \<Rightarrow> fl list \<Rightarrow> error + fl list" where
  "np_binop f xs ys =
     (if length xs = length ys then Inr (map2 f xs ys)
      else if length xs = 1 then Inr (map (f (hd xs)) ys)
      else if length ys = 1 then Inr (map (\<lambda>x. f x (hd ys)) xs)
      else Inl ValueError)"

text \<open>\<open>a[mask]\<close> for a boolean array \<open>mask\<close>: \<open>IndexError\<close> unless the shapes agree.\<close>

definition mask_select :: "'a list \<Rightarrow> bool list \<Rightarrow> error + 'a list" where
  "mask_select xs m =
     (if length m = length xs then Inr (map fst (filter snd (zip xs m)))
      else Inl IndexError)"

subsection \<open>Unit conversion\<close>

text \<open>
  \<open>BaseGSFile._convert_bins_to_phi\<close>, as a function of the attributes it reads:
  \<open>bin_units\<close>, \<open>mm_pix\<close> (\<open>None\<close> or a scale factor) and \<open>bins\<close>.
\<close>

definition convert_bins_to_phi :: "string \<Rightarrow> fl option \<Rightarrow> fl list \<Rightarrow> fl list option" where
  "convert_bins_to_phi bin_units mm_pix bins =
     (if bin_units = ''phi'' then Some bins
      else if bin_units = ''phi mid'' then None
      else if bin_units = ''psi'' then None
      else if bin_units = ''mm'' then Some (map (\<lambda>b. fneg (flog2 b)) bins)
      else if bin_units = ''pixels'' \<and> mm_pix \<noteq> None
        then Some (map (\<lambda>b. fneg (flog2 (fmul b (the mm_pix)))) bins)
      else None)"

text \<open>
  \<open>BaseGSFile._convert_bins_to_phi_mid\<close>, reading \<open>bin_units\<close>, \<open>bins\<close> and
  \<open>bins_phi\<close>. \<open>bins_phi[0]\<close> and \<open>bins_phi[1]\<close> raise \<open>IndexError\<close> on an array
  that is too short.
\<close>

definition convert_bins_to_phi_mid ::
  "string \<Rightarrow> fl list \<Rightarrow> fl list option \<Rightarrow> error + fl list option" where
  "convert_bins_to_phi_mid bin_units bins bins_phi =
     (if bin_units = ''phi mid'' then Inr (Some bins)
      else case bins_phi of
        Some phi \<Rightarrow>
          (if length phi < 2 then Inl IndexError
           else let mpt1 = fadd (phi ! 0) (fmul (Fin (1/2)) (fsub (phi ! 0) (phi ! 1)));
                    bins_phi_mid = map2 fadd (tl phi)
                       (map (fmul (Fin (1/2))) (map2 fsub (butlast phi) (tl phi)))
                in Inr (Some (mpt1 # bins_phi_mid)))
      | None \<Rightarrow> Inr None)"

subsection \<open>Two-dimensional arrays\<close>

text \<open>
  A two-dimensional array is the list of its rows, as \<open>np.asarray\<close> receives it. For
  the distribution matrix a row is a bin and a column is a sample. The width of an array
  is read from its first row, so an array without rows has width 0 here; the arrays of a
  constructed record have at least one row, and all their rows have the same length.
\<close>

type_synonym matrix = "fl list list"

definition ncols :: "matrix \<Rightarrow> nat" where
  "ncols d = (case d of [] \<Rightarrow> 0 | row # _ \<Rightarrow> length row)"

definition col :: "matrix \<Rightarrow> nat \<Rightarrow> fl list" where
  "col d j = map (\<lambda>row. row ! j) d"

text \<open>\<open>d.T\<close>, iterated: the columns in order.\<close>

definition cols :: "matrix \<Rightarrow> fl list list" where
  "cols d = map (col d) [0..<ncols d]"

text \<open>\<open>d[:, mask]\<close> for a boolean array \<open>mask\<close> over the columns.\<close>

definition select_cols :: "matrix \<Rightarrow> bool list \<Rightarrow> error + matrix" where
  "select_cols d m =
     (if length m = ncols d then Inr (map (\<lambda>row. map fst (filter snd (zip row m))) d)
      else Inl IndexError)"

text \<open>\<open>d[:, ii] = v\<close> for a value \<open>v\<close> with one entry per row.\<close>

definition set_col :: "matrix \<Rightarrow> nat \<Rightarrow> fl list \<Rightarrow> matrix" where
  "set_col d ii v = map2 (\<lambda>row x. row[ii := x]) d v"

text \<open>
  \<open>np.asarray(rows, dtype=np.float64)\<close> followed by the column indexing \<open>temp[:,0]\<close>
  of the constructor. A cell is \<open>None\<close> when its text is not a number. Rows of unequal
  length or a cell that is not a number raise \<open>ValueError\<close>; an array with no row or
  no column has no column 0, which raises \<open>IndexError\<close>.
\<close>

definition asarray :: "fl option list list \<Rightarrow> error + matrix" where
  "asarray rows =
     (if (\<exists>row \<in> set rows. length row \<noteq> length (hd rows)) \<or> (\<exists>row \<in> set rows. None \<in> set row)
      then Inl ValueError
      else if rows = [] \<or> hd rows = [] then Inl IndexError
      else Inr (map (map the) rows))"

subsection \<open>The record and its construction\<close>

text \<open>
  The attributes of a \<open>BaseGSFile\<close> object when the loop over the header rows has
  ended (line 109): the configured \<open>mm_pix\<close> and \<open>layer_type_lookup\<close>, the scalar
  \<open>bin_units\<close>, and the per-sample rows, the numeric ones as \<open>float64\<close> arrays.
\<close>

record gsattrs =
  mm_pix :: "fl option"
  layer_type_lookup :: "int \<Rightarrow> string option"
  bin_units :: string
  sample_id :: "string list"
  min_depth :: "fl list"
  max_depth :: "fl list"
  layer :: "fl list"
  layer_type :: "fl list"

text \<open>The object after construction: the attributes set by lines 111 to 118 added.\<close>

record gsfile = gsattrs +
  layer_type_strings :: "string list"
  bins :: "fl list"
  bins_phi :: "fl list option"
  bins_phi_mid :: "fl list option"
  dists :: matrix
  mid_depth :: "fl list"

definition default_layer_type_lookup :: "int \<Rightarrow> string option" where
  "default_layer_type_lookup = map_of
     [(-1, ''Post-tsunami''), (0, ''Pre-tsunami''), (1, ''Suspension graded''),
      (2, ''Inverse graded''), (3, ''Normal graded''), (4, ''Massive''),
      (5, ''Not classified''), (6, ''Not suspension graded''), (7, ''Mud''),
      (8, ''Mud cap''), (9, ''Unknown'')]"

text \<open>
  \<open>lookup[x]\<close> for a dictionary with integer keys and a \<open>float64\<close> \<open>x\<close>: a float
  equal to an integer key finds it (equal numbers hash alike); anything else, also
  not-a-number, raises \<open>KeyError\<close>.
\<close>

fun dict_get :: "(int \<Rightarrow> string option) \<Rightarrow> fl \<Rightarrow> error + string" where
  "dict_get d (Fin a) =
     (if a = of_int \<lfloor>a\<rfloor> then (case d \<lfloor>a\<rfloor> of None \<Rightarrow> Inl KeyError | Some s \<Rightarrow> Inr s)
      else Inl KeyError)"
| "dict_get d _ = Inl KeyError"

text \<open>\<open>BaseGSFile.__init__\<close>, lines 110 to 118, on the attributes and the matrix rows.\<close>

definition gs_init :: "gsattrs \<Rightarrow> fl option list list \<Rightarrow> error + gsfile" where
  "gs_init a rows =
     ebind (mapE (dict_get (layer_type_lookup a)) (layer_type a)) (\<lambda>strings.
     ebind (asarray rows) (\<lambda>temp.
       let bins = map hd temp;
           bins_phi = convert_bins_to_phi (bin_units a) (mm_pix a) bins
       in
     ebind (convert_bins_to_phi_mid (bin_units a) bins bins_phi) (\<lambda>bins_phi_mid.
     ebind (np_binop fadd (min_depth a) (max_depth a)) (\<lambda>s.
       Inr \<lparr> mm_pix = mm_pix a, layer_type_lookup = layer_type_lookup a,
             bin_units = bin_units a, sample_id = sample_id a,
             min_depth = min_depth a, max_depth = max_depth a,
             layer = layer a, layer_type = layer_type a,
             layer_type_strings = strings, bins = bins, bins_phi = bins_phi,
             bins_phi_mid = bins_phi_mid, dists = map tl temp,
             mid_depth = map (\<lambda>x. fdiv x (Fin 2)) s \<rparr>))))"

subsection \<open>Per-sample moments\<close>

text \<open>
  \<open>GSFile.dist_means\<close>. The loop runs over the columns of \<open>dists\<close> with their index;
  \<open>dist * None\<close> raises \<open>TypeError\<close>, and \<open>means[ii] = ...\<close> raises
  \<open>IndexError\<close> past the end of \<open>means\<close>.
\<close>

fun dist_means_loop :: "fl list option \<Rightarrow> nat \<Rightarrow> fl list list \<Rightarrow> fl list \<Rightarrow> error + fl list" where
  "dist_means_loop mids ii [] means = Inr means"
| "dist_means_loop mids ii (dist' # rest) means =
     (case mids of
        None \<Rightarrow> Inl TypeError
      | Some b \<Rightarrow>
          ebind (np_binop fmul dist' b) (\<lambda>p.
            if ii < length means
            then dist_means_loop mids (Suc ii) rest (means[ii := fdiv (fsum p) (fsum dist')])
            else Inl IndexError))"

definition dist_means :: "gsfile \<Rightarrow> error + fl list" where
  "dist_means r =
     dist_means_loop (bins_phi_mid r) 0 (cols (dists r)) (replicate (length (mid_depth r)) (Fin 0))"

text \<open>
  \<open>GSFile.dist_devs\<close>. \<open>devs[:,ii] = self.bins_phi_mid - m\<close>: \<open>None - m\<close> raises
  \<open>TypeError\<close>, a column index past the last column \<open>IndexError\<close>, and a value that
  has neither one entry per row nor a single entry \<open>ValueError\<close>.
\<close>

fun dist_devs_loop :: "fl list option \<Rightarrow> nat \<Rightarrow> fl list \<Rightarrow> matrix \<Rightarrow> error + matrix" where
  "dist_devs_loop mids ii [] devs = Inr devs"
| "dist_devs_loop mids ii (m # rest) devs =
     (case mids of
        None \<Rightarrow> Inl TypeError
      | Some b \<Rightarrow>
          let v = map (\<lambda>x. fsub x m) b in
          if \<not> ii < ncols devs then Inl IndexError
          else if length v = length devs then dist_devs_loop mids (Suc ii) rest (set_col devs ii v)
          else if length v = 1
            then dist_devs_loop mids (Suc ii) rest (set_col devs ii (replicate (length devs) (hd v)))
          else Inl ValueError)"

definition dist_devs :: "gsfile \<Rightarrow> error + (matrix \<times> fl list)" where
  "dist_devs r =
     ebind (dist_means r) (\<lambda>means.
     ebind (dist_devs_loop (bins_phi_mid r) 0 means (map (map (\<lambda>_. Fin 0)) (dists r))) (\<lambda>devs.
       Inr (devs, means)))"

text \<open>\<open>GSFile.dist_stds\<close>.\<close>

fun dist_stds_loop :: "matrix \<Rightarrow> nat \<Rightarrow> fl list list \<Rightarrow> fl list \<Rightarrow> error + fl list" where
  "dist_stds_loop devs ii [] variances = Inr variances"
| "dist_stds_loop devs ii (dist' # rest) variances =
     ebind (np_binop fmul dist' (map (\<lambda>d. fpow d 2) (col devs ii))) (\<lambda>p.
       if ii < length variances
       then dist_stds_loop devs (Suc ii) rest (variances[ii := fdiv (fsum p) (fsum dist')])
       else Inl IndexError)"

definition dist_stds :: "gsfile \<Rightarrow> error + fl list" where
  "dist_stds r =
     ebind (dist_devs r) (\<lambda>(devs, means).
     ebind (dist_stds_loop devs 0 (cols (dists r)) (replicate (length (mid_depth r)) (Fin 0)))
       (\<lambda>variances. Inr (map fsqrt variances)))"

text \<open>\<open>GSFile.dist_moments\<close>: the loop updates \<open>m2\<close>, \<open>m3\<close> and \<open>m4\<close> in place.\<close>

fun dist_moments_loop ::
  "matrix \<Rightarrow> nat \<Rightarrow> fl list list \<Rightarrow> fl list \<times> fl list \<times> fl list
     \<Rightarrow> error + (fl list \<times> fl list \<times> fl list)" where
  "dist_moments_loop devs ii [] (m2, m3, m4) = Inr (m2, m3, m4)"
| "dist_moments_loop devs ii (dist' # rest) (m2, m3, m4) =
     (let dist_sum = fsum dist' in
      ebind (np_binop fmul dist' (map (\<lambda>d. fpow d 2) (col devs ii))) (\<lambda>p2.
        if \<not> ii < length m2 then Inl IndexError
        else
          let m2' = m2[ii := fdiv (fsum p2) dist_sum];
              std = fsqrt (m2' ! ii)
          in
          ebind (np_binop fmul dist' (map (\<lambda>d. fpow (fdiv d std) 3) (col devs ii))) (\<lambda>p3.
            if \<not> ii < length m3 then Inl IndexError
            else
              let m3' = m3[ii := fdiv (fsum p3) dist_sum] in
              ebind (np_binop fmul dist' (map (\<lambda>d. fpow (fdiv d std) 4) (col devs ii))) (\<lambda>p4.
                if \<not> ii < length m4 then Inl IndexError
                else dist_moments_loop devs (Suc ii) rest
                       (m2', m3', m4[ii := fdiv (fsum p4) dist_sum])))))"

definition dist_moments :: "gsfile \<Rightarrow> error + (fl list \<times> fl list \<times> fl list \<times> fl list)" where
  "dist_moments r =
     ebind (dist_devs r) (\<lambda>(devs, m1).
       let z = replicate (length (mid_depth r)) (Fin 0) in
       ebind (dist_moments_loop devs 0 (cols (dists r)) (z, z, z)) (\<lambda>(m2, m3, m4).
         Inr (m1, m2, m3, m4)))"

subsection \<open>Bulk distribution and bulk mean\<close>

text \<open>
  \<open>scipy.stats.nanmean(dists, axis=1)\<close> on one row: the mean of the entries that are
  not not-a-number. The library computes \<open>mean(x with nan set to 0) / (1 - k/n)\<close> for
  \<open>k\<close> not-a-number entries among \<open>n\<close>, on a copy of its argument; in exact
  arithmetic that is the quotient below, and not-a-number when no entry is left.
\<close>

definition nanmean :: "fl list \<Rightarrow> fl" where
  "nanmean xs =
     (let ys = filter (\<lambda>x. \<not> isnan x) xs in fdiv (fsum ys) (Fin (real (length ys))))"

text \<open>
  \<open>diffs = [x - self.min_depth[ii] for ii, x in enumerate(self.max_depth)]\<close>: one
  entry per sample of the record, \<open>IndexError\<close> when \<open>min_depth\<close> is the shorter.
\<close>

definition depth_diffs :: "'a gsattrs_scheme \<Rightarrow> error + fl list" where
  "depth_diffs r =
     (if length (max_depth r) \<le> length (min_depth r)
      then Inr (map2 fsub (max_depth r) (min_depth r))
      else Inl IndexError)"

text \<open>
  The loop \<open>for ii in range(dists.shape[1]): dists[:,ii] = dists[:,ii]*diffs[ii]/length\<close>
  on the local array \<open>dists\<close>; \<open>diffs'\<close> and \<open>length'\<close> are the source's
  \<open>diffs\<close> and \<open>length\<close>.
\<close>

fun scale_loop :: "fl list \<Rightarrow> fl \<Rightarrow> nat list \<Rightarrow> matrix \<Rightarrow> error + matrix" where
  "scale_loop diffs' length' [] d = Inr d"
| "scale_loop diffs' length' (ii # rest) d =
     (if ii < length diffs'
      then scale_loop diffs' length' rest
             (set_col d ii (map (\<lambda>x. fdiv (fmul x (diffs' ! ii)) length') (col d ii)))
      else Inl IndexError)"

text \<open>\<open>GSFile.bulk_dist\<close> up to line 222: the value of \<open>nanmean(dists, axis=1)\<close>.\<close>

definition bulk_avg :: "gsfile \<Rightarrow> error + fl list" where
  "bulk_avg r =
     ebind
       (if \<not> list_ex isnan (min_depth r) \<and> 1 < length (sample_id r)
        then
          ebind (select_cols (dists r) (map (flt (Fin 0)) (layer r))) (\<lambda>d.
          ebind (depth_diffs r) (\<lambda>diffs'.
            scale_loop diffs' (fsum diffs') [0..<ncols d] d))
        else select_cols (dists r) (map (flt (Fin 0)) (layer r)))
       (\<lambda>d. Inr (map nanmean d))"

text \<open>\<open>GSFile.bulk_dist\<close>: line 223 rescales the average.\<close>

definition bulk_dist :: "gsfile \<Rightarrow> error + fl list" where
  "bulk_dist r =
     ebind (bulk_avg r) (\<lambda>b. Inr (map (\<lambda>x. fdiv (fmul (Fin 100) x) (fsum b)) b))"

text \<open>
  \<open>GSFile.bulk_mean\<close>; \<open>gs_min_max\<close> is \<open>None\<close> or a sequence of two numbers.
  \<open>f1 = gs_min_max[0] >= self.bins_phi_mid\<close> and \<open>f2 = gs_min_max[1] <= self.bins_phi_mid\<close>
  are boolean arrays and \<open>f1 * f2\<close> is their conjunction.
\<close>

definition bulk_mean :: "gsfile \<Rightarrow> (fl \<times> fl) option \<Rightarrow> error + fl" where
  "bulk_mean r gs_min_max =
     (case bins_phi_mid r of
        None \<Rightarrow> Inr NaN
      | Some mids \<Rightarrow>
          ebind (bulk_dist r) (\<lambda>dist'.
            case gs_min_max of
              Some (g0, g1) \<Rightarrow>
                let f1 = map (\<lambda>m. fle m g0) mids;
                    f2 = map (\<lambda>m. fle g1 m) mids;
                    filtr = map2 (\<and>) f1 f2
                in
                ebind (mask_select dist' filtr) (\<lambda>dist''.
                ebind (mask_select mids filtr) (\<lambda>bins'.
                ebind (np_binop fmul dist'' bins') (\<lambda>p.
                  Inr (fdiv (fsum p) (fsum dist'')))))
            | None \<Rightarrow>
                ebind (np_binop fmul dist' mids) (\<lambda>p. Inr (fdiv (fsum p) (fsum dist')))))"

subsection \<open>Bulk distribution on a store of arrays\<close>

text \<open>
  \<open>bulk_dist\<close> assigns to columns of its local array \<open>dists\<close>. To see which arrays
  the assignments reach, the two-dimensional arrays live in a store; an object holds the
  address of its \<open>dists\<close> array, and the other attributes that \<open>bulk_dist\<close> reads,
  none of which it assigns, by value. Indexing an array with a boolean array is numpy's
  advanced indexing: it builds a new array, here at a fresh address.
\<close>

record store =
  cells :: "nat \<Rightarrow> matrix"
  next_addr :: nat

record gsobj = gsattrs +
  dists_ref :: nat

definition alloc :: "matrix \<Rightarrow> store \<Rightarrow> nat \<times> store" where
  "alloc d s = (next_addr s, s\<lparr>cells := (cells s)(next_addr s := d), next_addr := Suc (next_addr s)\<rparr>)"

text \<open>\<open>a[:, mask]\<close> on the store: the selected columns, copied into a new array.\<close>

definition select_cols_st :: "nat \<Rightarrow> bool list \<Rightarrow> store \<Rightarrow> error + (nat \<times> store)" where
  "select_cols_st a m s = ebind (select_cols (cells s a) m) (\<lambda>d. Inr (alloc d s))"

text \<open>The scaling loop, writing through the address \<open>a\<close> that \<open>dists\<close> is bound to.\<close>

fun scale_loop_st :: "fl list \<Rightarrow> fl \<Rightarrow> nat list \<Rightarrow> nat \<Rightarrow> store \<Rightarrow> error + store" where
  "scale_loop_st diffs' length' [] a s = Inr s"
| "scale_loop_st diffs' length' (ii # rest) a s =
     (if ii < length diffs'
      then scale_loop_st diffs' length' rest a
             (s\<lparr>cells := (cells s)
                  (a := set_col (cells s a) ii
                          (map (\<lambda>x. fdiv (fmul x (diffs' ! ii)) length') (col (cells s a) ii)))\<rparr>)
      else Inl IndexError)"

definition bulk_dist_st :: "gsobj \<Rightarrow> store \<Rightarrow> error + (fl list \<times> store)" where
  "bulk_dist_st self s =
     ebind
       (if \<not> list_ex isnan (min_depth self) \<and> 1 < length (sample_id self)
        then
          ebind (select_cols_st (dists_ref self) (map (flt (Fin 0)) (layer self)) s) (\<lambda>(a, s1).
          ebind (depth_diffs self) (\<lambda>diffs'.
          ebind (scale_loop_st diffs' (fsum diffs') [0..<ncols (cells s1 a)] a s1) (\<lambda>s2.
            Inr (a, s2))))
        else select_cols_st (dists_ref self) (map (flt (Fin 0)) (layer self)) s)
       (\<lambda>(a, s2).
          let b = map nanmean (cells s2 a)
          in Inr (map (\<lambda>x. fdiv (fmul (Fin 100) x) (fsum b)) b, s2))"

subsection \<open>Depth bin edges\<close>

text \<open>\<open>np.array_equal\<close>: equal shapes and equal entries (not-a-number equals nothing).\<close>

definition array_equal :: "fl list \<Rightarrow> fl list \<Rightarrow> bool" where
  "array_equal xs ys = list_all2 feq xs ys"

text \<open>The loop of \<open>_get_depth_bin_edges\<close>; \<open>ii\<close> is the index after \<open>ii += 1\<close>.\<close>

fun edges_loop :: "nat \<Rightarrow> (fl \<times> fl) list \<Rightarrow> fl list \<Rightarrow> error + fl list" where
  "edges_loop ii [] depths = Inr depths"
| "edges_loop ii ((n, x) # rest) depths =
     (if ii < length depths
      then edges_loop (Suc ii) rest
             (depths[ii := (if feq n x then n else fadd n (fdiv (fsub x n) (Fin 2)))])
      else Inl IndexError)"

text \<open>
  \<open>GSFile._get_depth_bin_edges\<close>. \<open>min_depth[0]\<close> and \<open>max_depth[-1]\<close> raise
  \<open>IndexError\<close> on an empty array; \<open>np.zeros(self.min_depth.size+1)\<close> takes its size from
  the attribute of the record.
\<close>

definition get_depth_bin_edges :: "'a gsattrs_scheme \<Rightarrow> fl \<Rightarrow> error + fl list" where
  "get_depth_bin_edges r min_layer =
     ebind (mask_select (min_depth r) (map (flt min_layer) (layer r))) (\<lambda>min_depth'.
     ebind (mask_select (max_depth r) (map (flt min_layer) (layer r))) (\<lambda>max_depth'.
       if array_equal (tl min_depth') (butlast max_depth')
       then
         (if max_depth' = [] then Inl IndexError
          else Inr (min_depth' @ [last max_depth']))
       else
         let depths = replicate (length (min_depth r) + 1) (Fin 0) in
         if min_depth' = [] then Inl IndexError
         else
           let depths = depths[0 := hd min_depth'] in
           if max_depth' = [] then Inl IndexError
           else
             let depths = depths[length depths - 1 := last max_depth'] in
             edges_loop 1 (zip (tl min_depth') (butlast max_depth')) depths))"

subsection \<open>The specification's wording, for comparison\<close>

text \<open>
  The qualifying samples of a record are those with \<open>layer > 0\<close>; \<open>qualifying r xs\<close>
  keeps the entries of a per-sample vector that belong to them.
\<close>

definition qualifying :: "'a gsattrs_scheme \<Rightarrow> 'b list \<Rightarrow> 'b list" where
  "qualifying r xs = map fst (filter (\<lambda>(x, l). flt (Fin 0) l) (zip xs (layer r)))"

text \<open>
  The bulk distribution as the specification words it: with no missing \<open>min_depth\<close> and
  more than one qualifying sample, each qualifying column is weighted by its own
  thickness \<open>max_depth[i] - min_depth[i]\<close> over the total thickness of the qualifying
  samples; then the average that ignores missing values, rescaled to sum to 100.
\<close>

definition bulk_dist_spec :: "gsfile \<Rightarrow> fl list" where
  "bulk_dist_spec r =
     (let w = qualifying r (map2 fsub (max_depth r) (min_depth r));
          d = map (qualifying r) (dists r);
          d' = (if \<not> list_ex isnan (min_depth r) \<and> 1 < length w
                then map (\<lambda>row. map2 (\<lambda>x t. fmul x (fdiv t (fsum w))) row w) d
                else d);
          b = map nanmean d'
      in map (\<lambda>x. fdiv (fmul (Fin 100) x) (fsum b)) b)"

text \<open>
  The bulk mean over a phi range as the specification words it: the argument is
  \<open>[low, high]\<close> and a bin takes part when \<open>low \<le> m \<le> high\<close> for its midpoint \<open>m\<close>.
\<close>

definition bulk_mean_spec :: "fl list \<Rightarrow> fl list \<Rightarrow> fl \<times> fl \<Rightarrow> fl" where
  "bulk_mean_spec dist' mids rng =
     (let sel = filter (\<lambda>(d, m). fle (fst rng) m \<and> fle m (snd rng)) (zip dist' mids)
      in fdiv (fsum (map (\<lambda>(d, m). fmul d m) sel)) (fsum (map fst sel)))"

subsection \<open>Example records\<close>

text \<open>
  A trench of three samples over two phi bins. The first sample is post-tsunami
  (\<open>layer = -1\<close>), the other two are tsunami layers 1 and 2 of thickness 3 and 1; the second
  sample has all its weight in the first bin, the third in the second bin.
\<close>

definition trench_attrs :: gsattrs where
  "trench_attrs = \<lparr> mm_pix = None, layer_type_lookup = default_layer_type_lookup,
      bin_units = ''phi'', sample_id = [''s1'', ''s2'', ''s3''],
      min_depth = [Fin 0, Fin 1, Fin 4], max_depth = [Fin 1, Fin 4, Fin 5],
      layer = [Fin (-1), Fin 1, Fin 2], layer_type = [Fin (-1), Fin 3, Fin 3] \<rparr>"

definition trench_rows :: "fl option list list" where
  "trench_rows = [[Some (Fin 1), Some (Fin 50), Some (Fin 100), Some (Fin 0)],
                  [Some (Fin 2), Some (Fin 50), Some (Fin 0), Some (Fin 100)]]"

definition trench :: gsfile where
  "trench = \<lparr> mm_pix = None, layer_type_lookup = default_layer_type_lookup,
      bin_units = ''phi'', sample_id = [''s1'', ''s2'', ''s3''],
      min_depth = [Fin 0, Fin 1, Fin 4], max_depth = [Fin 1, Fin 4, Fin 5],
      layer = [Fin (-1), Fin 1, Fin 2], layer_type = [Fin (-1), Fin 3, Fin 3],
      layer_type_strings = [''Post-tsunami'', ''Normal graded'', ''Normal graded''],
      bins = [Fin 1, Fin 2], bins_phi = Some [Fin 1, Fin 2],
      bins_phi_mid = Some [Fin (1/2), Fin (3/2)],
      dists = [[Fin 50, Fin 100, Fin 0], [Fin 50, Fin 0, Fin 100]],
      mid_depth = [Fin (1/2), Fin (5/2), Fin (9/2)] \<rparr>"

text \<open>The depths of the docstring of \<open>_get_depth_bin_edges\<close>, the first sample post-tsunami.\<close>

definition gap_attrs :: gsattrs where
  "gap_attrs = \<lparr> mm_pix = None, layer_type_lookup = default_layer_type_lookup,
      bin_units = ''phi'', sample_id = [''s1'', ''s2'', ''s3''],
      min_depth = [Fin 0, Fin 1, Fin (5/2)], max_depth = [Fin 1, Fin 2, Fin (7/2)],
      layer = [Fin (-1), Fin 1, Fin 2], layer_type = [Fin (-1), Fin 3, Fin 3] \<rparr>"

text \<open>
  The trench as an object on a store: its distribution matrix is the array at address 0,
  and address 1 is the next free one.
\<close>

definition trench_obj :: gsobj where
  "trench_obj = \<lparr> mm_pix = None, layer_type_lookup = default_layer_type_lookup,
      bin_units = ''phi'', sample_id = [''s1'', ''s2'', ''s3''],
      min_depth = [Fin 0, Fin 1, Fin 4], max_depth = [Fin 1, Fin 4, Fin 5],
      layer = [Fin (-1), Fin 1, Fin 2], layer_type = [Fin (-1), Fin 3, Fin 3],
      dists_ref = 0 \<rparr>"

definition trench_store :: store where
  "trench_store = \<lparr> cells = (\<lambda>_. [])(0 := [[Fin 50, Fin 100, Fin 0], [Fin 50, Fin 0, Fin 100]]),
      next_addr = 1 \<rparr>"







section \<open>Basic facts\<close>

lemma ebind_eq_Inr: "ebind m f = Inr y \<longleftrightarrow> (\<exists>x. m = Inr x \<and> f x = Inr y)"
  by (cases m) auto

lemma ebind_eq_Inl: "ebind m f = Inl e \<longleftrightarrow> (m = Inl e \<or> (\<exists>x. m = Inr x \<and> f x = Inl e))"
  by (cases m) auto

lemma mapE_Inr:
  "mapE f xs = Inr ys \<longleftrightarrow> (length ys = length xs \<and> (\<forall>i < length xs. f (xs ! i) = Inr (ys ! i)))"
proof (induction xs arbitrary: ys)
  case Nil
  then show ?case by auto
next
  case (Cons x xs)
  show ?case
  proof (cases ys)
    case Nil
    then show ?thesis by (auto simp: ebind_eq_Inr)
  next
    case (Cons y ys')
    then show ?thesis
      by (auto simp: ebind_eq_Inr Cons.IH less_Suc_eq_0_disj)
  qed
qed

lemma mapE_Inl: "mapE f xs = Inl e \<Longrightarrow> \<exists>x \<in> set xs. f x = Inl e"
  by (induction xs) (auto simp: ebind_eq_Inl)

lemma mapE_Inl_ex: "\<exists>x \<in> set xs. \<exists>e. f x = Inl e \<Longrightarrow> \<exists>e. mapE f xs = Inl e"
proof (induction xs)
  case Nil
  then show ?case by simp
next
  case (Cons x xs)
  show ?case
  proof (cases "f x")
    case (Inl e)
    then show ?thesis by simp
  next
    case (Inr y)
    with Cons.prems have "\<exists>x \<in> set xs. \<exists>e. f x = Inl e" by auto
    then obtain e where "mapE f xs = Inl e" using Cons.IH by blast
    with Inr show ?thesis by simp
  qed
qed

lemma floor_minus_1: "\<lfloor>- 1 :: real\<rfloor> = - 1"
  using floor_of_int [of "- 1", where ?'a = real] by simp

lemma upt_2: "[0..<2] = [0, Suc 0]"
  by (simp add: upt_rec)

lemma upt_3: "[0..<3] = [0, Suc 0, Suc (Suc 0)]"
  by (simp add: upt_rec)






section \<open>The example records\<close>

lemma trench_rows_asarray:
  "asarray trench_rows = Inr [[Fin 1, Fin 50, Fin 100, Fin 0], [Fin 2, Fin 50, Fin 0, Fin 100]]"
  by (simp add: asarray_def trench_rows_def)

lemma trench_init: "gs_init trench_attrs trench_rows = Inr trench"
  by (simp add: gs_init_def trench_rows_asarray)
     (simp add: trench_attrs_def trench_def default_layer_type_lookup_def floor_minus_1 Let_def
        convert_bins_to_phi_def convert_bins_to_phi_mid_def fsub_def np_binop_def)

lemma trench_bulk_avg: "bulk_avg trench = Inr [Fin 10, Fin 30]"
  by (simp add: bulk_avg_def trench_def select_cols_def ncols_def depth_diffs_def
      fsub_def fsum_def upt_2 set_col_def col_def nanmean_def)

lemma trench_bulk_dist: "bulk_dist trench = Inr [Fin 25, Fin 75]"
  by (simp add: bulk_dist_def trench_bulk_avg fsum_def)

lemma trench_mids: "bins_phi_mid trench = Some [Fin (1/2), Fin (3/2)]"
  by (simp add: trench_def)





section \<open>Unit conversion: properties\<close>

lemma phi_mid_tail_nth:
  assumes "Suc i < length phi"
  shows "map2 fadd (tl phi) (map (fmul c) (map2 fsub (butlast phi) (tl phi))) ! i
         = fadd (phi ! Suc i) (fmul c (fsub (phi ! i) (phi ! Suc i)))"
  using assms by (simp add: nth_tl nth_butlast)

text \<open>
  C5. For phi edges of length \<open>M \<ge> 2\<close> (so \<open>bin_units\<close> is not \<open>phi mid\<close>, for which no
  phi edges exist), \<open>_convert_bins_to_phi_mid\<close> returns \<open>M\<close> midpoints: the first is
  \<open>phi[0] + 0.5*(phi[0]-phi[1])\<close>, and entry \<open>i\<close>, \<open>1 \<le> i < M\<close>, is
  \<open>phi[i] + 0.5*(phi[i-1]-phi[i])\<close>; the edges \<open>[1,2,3,4]\<close> give
  \<open>[0.5, 1.5, 2.5, 3.5]\<close>.
\<close>

theorem C5_phi_mid_formula:
  assumes "convert_bins_to_phi units mp bs = Some phi"
    and "2 \<le> length phi"
  shows "\<exists>mid. convert_bins_to_phi_mid units bs (Some phi) = Inr (Some mid)
           \<and> length mid = length phi
           \<and> mid ! 0 = fadd (phi ! 0) (fmul (Fin (1/2)) (fsub (phi ! 0) (phi ! 1)))
           \<and> (\<forall>i. 1 \<le> i \<and> i < length phi \<longrightarrow>
                 mid ! i = fadd (phi ! i) (fmul (Fin (1/2)) (fsub (phi ! (i - 1)) (phi ! i))))
           \<and> convert_bins_to_phi_mid ''phi'' [Fin 1, Fin 2, Fin 3, Fin 4]
                 (convert_bins_to_phi ''phi'' None [Fin 1, Fin 2, Fin 3, Fin 4])
               = Inr (Some [Fin (1/2), Fin (3/2), Fin (5/2), Fin (7/2)])"
proof -
  from assms(1) have units: "units \<noteq> ''phi mid''"
    by (auto simp: convert_bins_to_phi_def split: if_splits)
  define mid where "mid = fadd (phi ! 0) (fmul (Fin (1/2)) (fsub (phi ! 0) (phi ! 1)))
      # map2 fadd (tl phi) (map (fmul (Fin (1/2))) (map2 fsub (butlast phi) (tl phi)))"
  have run: "convert_bins_to_phi_mid units bs (Some phi) = Inr (Some mid)"
    using units assms(2) by (simp add: convert_bins_to_phi_mid_def mid_def Let_def)
  have len: "length mid = length phi"
    using assms(2) by (simp add: mid_def)
  have first: "mid ! 0 = fadd (phi ! 0) (fmul (Fin (1/2)) (fsub (phi ! 0) (phi ! 1)))"
    by (simp add: mid_def)
  have rest: "mid ! i = fadd (phi ! i) (fmul (Fin (1/2)) (fsub (phi ! (i - 1)) (phi ! i)))"
    if "1 \<le> i \<and> i < length phi" for i
  proof -
    from that obtain j where j: "i = Suc j" by (cases i) auto
    with that have "Suc j < length phi" by simp
    then show ?thesis
      using phi_mid_tail_nth [of j phi "Fin (1/2)"] by (simp add: mid_def j)
  qed
  have ex: "convert_bins_to_phi_mid ''phi'' [Fin 1, Fin 2, Fin 3, Fin 4]
                 (convert_bins_to_phi ''phi'' None [Fin 1, Fin 2, Fin 3, Fin 4])
               = Inr (Some [Fin (1/2), Fin (3/2), Fin (5/2), Fin (7/2)])"
    by (simp add: convert_bins_to_phi_mid_def convert_bins_to_phi_def fsub_def)
  from run len first rest ex show ?thesis by blast
qed

theorem C5_phi_mid_formula_witness:
  "convert_bins_to_phi ''phi'' None [Fin 1, Fin 2, Fin 4] = Some [Fin 1, Fin 2, Fin 4]
   \<and> (2::nat) \<le> length [Fin 1, Fin 2, Fin 4]
   \<and> convert_bins_to_phi_mid ''phi'' [Fin 1, Fin 2, Fin 4] (Some [Fin 1, Fin 2, Fin 4])
       = Inr (Some [Fin (1/2), Fin (3/2), Fin 3])"
proof -
  have h1: "convert_bins_to_phi ''phi'' None [Fin 1, Fin 2, Fin 4] = Some [Fin 1, Fin 2, Fin 4]"
    by (simp add: convert_bins_to_phi_def)
  have h2: "2 \<le> length [Fin 1, Fin 2, Fin 4]" by simp
  have run: "convert_bins_to_phi_mid ''phi'' [Fin 1, Fin 2, Fin 4] (Some [Fin 1, Fin 2, Fin 4])
       = Inr (Some [Fin (1/2), Fin (3/2), Fin 3])"
    by (simp add: convert_bins_to_phi_mid_def fsub_def)
  from C5_phi_mid_formula [OF h1 h2] h1 h2 run show ?thesis by simp
qed

text \<open>
  C7. A record constructed with \<open>bin_units = "psi"\<close> has neither \<open>bins_phi\<close> nor
  \<open>bins_phi_mid\<close>, and \<open>bulk_mean\<close> returns not-a-number on it for any range
  argument, whatever the rows of the matrix hold.
\<close>

theorem C7_psi_unavailable:
  assumes "gs_init a rows = Inr r" and "bin_units a = ''psi''"
  shows "bin_units r = ''psi'' \<and> bins_phi r = None \<and> bins_phi_mid r = None
          \<and> bulk_mean r rng = Inr NaN"
proof -
  from assms have "bin_units r = ''psi''" "bins_phi r = None" "bins_phi_mid r = None"
    by (auto simp: gs_init_def Let_def ebind_eq_Inr convert_bins_to_phi_def
        convert_bins_to_phi_mid_def)
  then show ?thesis by (simp add: bulk_mean_def)
qed

theorem C7_psi_unavailable_witness:
  "gs_init (trench_attrs\<lparr>bin_units := ''psi''\<rparr>) trench_rows
     = Inr (trench\<lparr>bin_units := ''psi'', bins_phi := None, bins_phi_mid := None\<rparr>)
   \<and> bulk_mean (trench\<lparr>bin_units := ''psi'', bins_phi := None, bins_phi_mid := None\<rparr>)
        (Some (Fin 4, Fin 0)) = Inr NaN"
proof -
  have run: "gs_init (trench_attrs\<lparr>bin_units := ''psi''\<rparr>) trench_rows
     = Inr (trench\<lparr>bin_units := ''psi'', bins_phi := None, bins_phi_mid := None\<rparr>)"
    by (simp add: gs_init_def trench_rows_asarray)
       (simp add: trench_attrs_def trench_def default_layer_type_lookup_def floor_minus_1 Let_def
          convert_bins_to_phi_def convert_bins_to_phi_mid_def np_binop_def)
  have units: "bin_units (trench_attrs\<lparr>bin_units := ''psi''\<rparr>) = ''psi''"
    by simp
  from C7_psi_unavailable [OF run units, of "Some (Fin 4, Fin 0)"] run
  show ?thesis by simp
qed

section \<open>Construction\<close>

text \<open>A constructed record has one phi midpoint per row of its matrix.\<close>

lemma convert_bins_to_phi_length:
  "convert_bins_to_phi u mp bs = Some phi \<Longrightarrow> length phi = length bs"
  by (auto simp: convert_bins_to_phi_def split: if_splits)

lemma convert_bins_to_phi_mid_length:
  assumes "convert_bins_to_phi_mid u bs (convert_bins_to_phi u mp bs) = Inr (Some mids)"
  shows "length mids = length bs"
proof (cases "u = ''phi mid''")
  case True
  with assms show ?thesis by (simp add: convert_bins_to_phi_mid_def)
next
  case False
  with assms obtain phi where phi: "convert_bins_to_phi u mp bs = Some phi"
    by (cases "convert_bins_to_phi u mp bs") (auto simp: convert_bins_to_phi_mid_def)
  with assms False have "2 \<le> length phi" "length mids = length phi"
    by (auto simp: convert_bins_to_phi_mid_def Let_def split: if_splits)
  with convert_bins_to_phi_length [OF phi] show ?thesis by simp
qed

lemma gs_init_shape:
  assumes "gs_init a rows = Inr r" and "bins_phi_mid r = Some mids"
  shows "length mids = length (dists r)"
proof -
  from assms(1) obtain temp where
    mid: "convert_bins_to_phi_mid (bin_units a) (map hd temp)
            (convert_bins_to_phi (bin_units a) (mm_pix a) (map hd temp)) = Inr (bins_phi_mid r)"
    and d: "dists r = map tl temp"
    by (auto simp: gs_init_def Let_def ebind_eq_Inr)
  from mid assms(2) convert_bins_to_phi_mid_length have "length mids = length (map hd temp)"
    by metis
  with d show ?thesis by simp
qed

lemma dict_get_error: "dict_get d x = Inl e \<Longrightarrow> e = KeyError"
  by (cases x) (auto split: if_splits option.splits)

lemma asarray_not_KeyError: "asarray rows \<noteq> Inl KeyError"
  by (simp add: asarray_def)

lemma convert_mid_not_KeyError: "convert_bins_to_phi_mid u b p \<noteq> Inl KeyError"
  by (simp add: convert_bins_to_phi_mid_def Let_def split: option.splits)

lemma np_binop_not_KeyError: "np_binop f xs ys \<noteq> Inl KeyError"
  by (simp add: np_binop_def)

text \<open>
  C3, as the code has it. The labels are looked up from the \<open>layer_type\<close> vector (the
  header row \<open>Layer Type\<close>), not from \<open>layer\<close> (the header row \<open>Layer\<close>, which
  the statistics filter on): \<open>layer_type_strings[i] = layer_type_lookup[layer_type[i]]\<close>
  for every sample, and the construction raises \<open>KeyError\<close> exactly when some entry of
  \<open>layer_type\<close> has no entry in the table.
\<close>

theorem C3_labels_follow_layer_type:
  "(gs_init a rows = Inl KeyError
      \<longleftrightarrow> (\<exists>x \<in> set (layer_type a). dict_get (layer_type_lookup a) x = Inl KeyError))
   \<and> (\<forall>r. gs_init a rows = Inr r \<longrightarrow>
         layer_type r = layer_type a
         \<and> length (layer_type_strings r) = length (layer_type r)
         \<and> (\<forall>i < length (layer_type r).
               dict_get (layer_type_lookup a) (layer_type r ! i) = Inr (layer_type_strings r ! i)))"
proof (intro conjI allI impI)
  show "gs_init a rows = Inl KeyError
      \<longleftrightarrow> (\<exists>x \<in> set (layer_type a). dict_get (layer_type_lookup a) x = Inl KeyError)"
  proof
    assume fail: "gs_init a rows = Inl KeyError"
    have "mapE (dict_get (layer_type_lookup a)) (layer_type a) = Inl KeyError"
    proof (cases "mapE (dict_get (layer_type_lookup a)) (layer_type a)")
      case (Inl e)
      with fail show ?thesis by (simp add: gs_init_def)
    next
      case (Inr strings)
      with fail show ?thesis
        by (auto simp: gs_init_def Let_def ebind_eq_Inl asarray_not_KeyError
            convert_mid_not_KeyError np_binop_not_KeyError)
    qed
    then show "\<exists>x \<in> set (layer_type a). dict_get (layer_type_lookup a) x = Inl KeyError"
      by (rule mapE_Inl)
  next
    assume "\<exists>x \<in> set (layer_type a). dict_get (layer_type_lookup a) x = Inl KeyError"
    then have "\<exists>e. mapE (dict_get (layer_type_lookup a)) (layer_type a) = Inl e"
      by (intro mapE_Inl_ex) blast
    then obtain e where e: "mapE (dict_get (layer_type_lookup a)) (layer_type a) = Inl e" ..
    then have "e = KeyError"
      using mapE_Inl [OF e] dict_get_error by blast
    with e show "gs_init a rows = Inl KeyError"
      by (simp add: gs_init_def)
  qed
next
  fix r
  assume ok: "gs_init a rows = Inr r"
  then obtain strings where s: "mapE (dict_get (layer_type_lookup a)) (layer_type a) = Inr strings"
    and r: "layer_type_strings r = strings" "layer_type r = layer_type a"
    by (auto simp: gs_init_def Let_def ebind_eq_Inr)
  from r show "layer_type r = layer_type a" by simp
  from s r show "length (layer_type_strings r) = length (layer_type r)"
    by (simp add: mapE_Inr)
  fix i
  assume "i < length (layer_type r)"
  with s r show "dict_get (layer_type_lookup a) (layer_type r ! i) = Inr (layer_type_strings r ! i)"
    by (simp add: mapE_Inr)
qed

theorem C3_labels_follow_layer_type_witness:
  "gs_init trench_attrs trench_rows = Inr trench
   \<and> layer_type trench = [Fin (-1), Fin 3, Fin 3]
   \<and> layer_type_strings trench = [''Post-tsunami'', ''Normal graded'', ''Normal graded'']
   \<and> dict_get default_layer_type_lookup (Fin 12) = Inl KeyError
   \<and> gs_init (trench_attrs\<lparr>layer_type := [Fin (-1), Fin 3, Fin 12]\<rparr>) trench_rows = Inl KeyError"
proof -
  have no_entry: "dict_get default_layer_type_lookup (Fin 12) = Inl KeyError"
    by (simp add: default_layer_type_lookup_def floor_minus_1)
  then have "\<exists>x \<in> set (layer_type (trench_attrs\<lparr>layer_type := [Fin (-1), Fin 3, Fin 12]\<rparr>)).
      dict_get (layer_type_lookup (trench_attrs\<lparr>layer_type := [Fin (-1), Fin 3, Fin 12]\<rparr>)) x
        = Inl KeyError"
    by (simp add: trench_attrs_def)
  with C3_labels_follow_layer_type [of "trench_attrs\<lparr>layer_type := [Fin (-1), Fin 3, Fin 12]\<rparr>" trench_rows]
  have fails: "gs_init (trench_attrs\<lparr>layer_type := [Fin (-1), Fin 3, Fin 12]\<rparr>) trench_rows
      = Inl KeyError"
    by blast
  from C3_labels_follow_layer_type [of trench_attrs trench_rows] trench_init
  have "length (layer_type_strings trench) = length (layer_type trench)" by blast
  with trench_init no_entry fails show ?thesis
    by (simp add: trench_def)
qed

text \<open>
  The claim as worded fails on the trench: its second sample has \<open>layer = 1\<close>, for
  which the table says \<open>Suspension graded\<close>, and the label \<open>Normal graded\<close> of its
  \<open>layer_type = 3\<close>. A \<open>layer\<close> code without an entry (12) does not stop the
  construction, and a \<open>layer_type\<close> code without an entry stops it although every
  \<open>layer\<close> code has one.
\<close>

theorem C3_labels_by_layer_counterexample:
  "gs_init trench_attrs trench_rows = Inr trench
   \<and> dict_get (layer_type_lookup trench) (layer trench ! 1) = Inr ''Suspension graded''
   \<and> layer_type_strings trench ! 1 = ''Normal graded''
   \<and> dict_get default_layer_type_lookup (Fin 12) = Inl KeyError
   \<and> gs_init (trench_attrs\<lparr>layer := [Fin (-1), Fin 1, Fin 12]\<rparr>) trench_rows
       = Inr (trench\<lparr>layer := [Fin (-1), Fin 1, Fin 12]\<rparr>)
   \<and> mapE (dict_get default_layer_type_lookup) (layer trench_attrs)
       = Inr [''Post-tsunami'', ''Suspension graded'', ''Inverse graded'']
   \<and> gs_init (trench_attrs\<lparr>layer_type := [Fin (-1), Fin 3, Fin 12]\<rparr>) trench_rows = Inl KeyError"
proof -
  have "gs_init (trench_attrs\<lparr>layer := [Fin (-1), Fin 1, Fin 12]\<rparr>) trench_rows
       = Inr (trench\<lparr>layer := [Fin (-1), Fin 1, Fin 12]\<rparr>)"
    by (simp add: gs_init_def trench_rows_asarray)
       (simp add: trench_attrs_def trench_def default_layer_type_lookup_def floor_minus_1 Let_def
          convert_bins_to_phi_def convert_bins_to_phi_mid_def fsub_def np_binop_def)
  moreover have "gs_init (trench_attrs\<lparr>layer_type := [Fin (-1), Fin 3, Fin 12]\<rparr>) trench_rows
       = Inl KeyError"
    by (simp add: gs_init_def trench_attrs_def default_layer_type_lookup_def floor_minus_1)
  moreover have "mapE (dict_get default_layer_type_lookup) (layer trench_attrs)
       = Inr [''Post-tsunami'', ''Suspension graded'', ''Inverse graded'']"
    by (simp add: trench_attrs_def default_layer_type_lookup_def floor_minus_1)
  ultimately show ?thesis
    using trench_init by (simp add: trench_def default_layer_type_lookup_def floor_minus_1)
qed

section \<open>Per-sample means on a column that sums to zero\<close>












section \<open>Per-sample moments: standard deviation and variance\<close>

lemma np_binop_shape_Inr:
  "np_binop f xs (map g ys) = Inr p \<Longrightarrow> \<exists>p'. np_binop f' xs (map g' ys) = Inr p'"
  by (auto simp: np_binop_def split: if_splits)

text \<open>
  The loop of \<open>dist_moments\<close> raises where the loop of \<open>dist_stds\<close> raises, and
  otherwise leaves in \<open>m2\<close> what the other leaves in \<open>variances\<close>.
\<close>

lemma moments_loop_variance:
  assumes "length m3 = length m2" and "length m4 = length m2"
  shows "ebind (dist_moments_loop devs ii ds (m2, m3, m4)) (\<lambda>(v2, v3, v4). Inr v2)
         = dist_stds_loop devs ii ds m2"
  using assms
proof (induction ds arbitrary: ii m2 m3 m4)
  case Nil
  then show ?case by simp
next
  case (Cons d ds)
  let ?c = "col devs ii"
  show ?case
  proof (cases "np_binop fmul d (map (\<lambda>x. fpow x 2) ?c)")
    case (Inl e)
    then show ?thesis by simp
  next
    case (Inr p2)
    note p2 = this
    show ?thesis
    proof (cases "ii < length m2")
      case False
      with p2 show ?thesis by simp
    next
      case True
      let ?m2 = "m2[ii := fdiv (fsum p2) (fsum d)]"
      let ?std = "fsqrt (?m2 ! ii)"
      from np_binop_shape_Inr [OF p2]
      obtain p3 where p3: "np_binop fmul d (map (\<lambda>x. fpow (fdiv x ?std) 3) ?c) = Inr p3"
        by blast
      from np_binop_shape_Inr [OF p2]
      obtain p4 where p4: "np_binop fmul d (map (\<lambda>x. fpow (fdiv x ?std) 4) ?c) = Inr p4"
        by blast
      let ?m3 = "m3[ii := fdiv (fsum p3) (fsum d)]"
      let ?m4 = "m4[ii := fdiv (fsum p4) (fsum d)]"
      have step: "dist_moments_loop devs ii (d # ds) (m2, m3, m4)
                  = dist_moments_loop devs (Suc ii) ds (?m2, ?m3, ?m4)"
        using p2 p3 p4 True Cons.prems by (simp add: Let_def)
      have "length ?m3 = length ?m2" and "length ?m4 = length ?m2"
        using Cons.prems by simp_all
      from Cons.IH [OF this, of "Suc ii"] step p2 True show ?thesis
        by simp
    qed
  qed
qed

text \<open>
  C8. \<open>dist_stds\<close> raises exactly when \<open>dist_moments\<close> raises, and otherwise its
  result is the element-wise square root of the variance component \<open>m2\<close> of
  \<open>dist_moments\<close>.
\<close>

theorem C8_stds_are_sqrt_of_variance:
  "dist_stds r = ebind (dist_moments r) (\<lambda>(m1, m2, m3, m4). Inr (map fsqrt m2))"
proof (cases "dist_devs r")
  case (Inl e)
  then show ?thesis by (simp add: dist_stds_def dist_moments_def)
next
  case (Inr dm)
  obtain devs means where dm: "dm = (devs, means)" by (cases dm)
  let ?z = "replicate (length (mid_depth r)) (Fin 0)"
  have loop: "dist_stds_loop devs 0 (cols (dists r)) ?z
      = ebind (dist_moments_loop devs 0 (cols (dists r)) (?z, ?z, ?z)) (\<lambda>(v2, v3, v4). Inr v2)"
    by (simp add: moments_loop_variance)
  show ?thesis
  proof (cases "dist_moments_loop devs 0 (cols (dists r)) (?z, ?z, ?z)")
    case (Inl e)
    with Inr dm loop show ?thesis
      by (simp add: dist_stds_def dist_moments_def Let_def)
  next
    case (Inr ms)
    obtain v2 v3 v4 where "ms = (v2, v3, v4)" by (cases ms)
    with Inr \<open>dist_devs r = Inr dm\<close> dm loop show ?thesis
      by (simp add: dist_stds_def dist_moments_def Let_def)
  qed
qed

text \<open>Both are defined on the trench: its first sample has variance 1/4 and deviation 1/2.\<close>

lemma trench_dist_means: "dist_means trench = Inr [Fin 1, Fin (1/2), Fin (3/2)]"
  by (simp add: dist_means_def trench_def cols_def ncols_def col_def upt_3 np_binop_def fsum_def)

lemma trench_dist_devs:
  "dist_devs trench = Inr ([[Fin (-1/2), Fin 0, Fin (-1)], [Fin (1/2), Fin 1, Fin 0]],
                          [Fin 1, Fin (1/2), Fin (3/2)])"
  by (simp add: dist_devs_def trench_dist_means)
     (simp add: trench_def ncols_def set_col_def fsub_def)

lemma sqrt_quarter: "sqrt (1/4) = 1/2"
  by (simp add: real_sqrt_divide)

lemma trench_dist_stds: "dist_stds trench = Inr [Fin (1/2), Fin 0, Fin 0]"
  by (simp add: dist_stds_def trench_dist_devs)
     (simp add: trench_def cols_def ncols_def col_def upt_3 np_binop_def fsum_def
        numeral_2_eq_2 sqrt_quarter)

lemma trench_dist_moments:
  "dist_moments trench = Inr ([Fin 1, Fin (1/2), Fin (3/2)], [Fin (1/4), Fin 0, Fin 0],
       [Fin 0, NaN, NaN], [Fin 1, NaN, NaN])"
  by (simp add: dist_moments_def trench_dist_devs)
     (simp add: trench_def cols_def ncols_def col_def upt_3 np_binop_def fsum_def
        numeral_2_eq_2 numeral_3_eq_3 eval_nat_numeral sqrt_quarter Let_def)

section \<open>Bulk distribution\<close>

text \<open>
  C1, at the trench. The two tsunami samples have thickness 3 and 1, so the weighting of
  the specification gives the composite \<open>[75, 25]\<close>. The code takes the thicknesses of
  all three samples, \<open>diffs = [1, 3, 1]\<close>, and weights column \<open>ii\<close> of the filtered
  matrix by \<open>diffs[ii]\<close>: the second sample by the thickness of the first and the third
  by the thickness of the second. Its result is \<open>[25, 75]\<close>.
\<close>

theorem C1_bulk_dist_weights_misaligned:
  "gs_init trench_attrs trench_rows = Inr trench
   \<and> bulk_dist trench = Inr [Fin 25, Fin 75]
   \<and> bulk_dist_spec trench = [Fin 75, Fin 25]"
proof -
  have "bulk_dist_spec trench = [Fin 75, Fin 25]"
    by (simp add: bulk_dist_spec_def trench_def qualifying_def fsub_def fsum_def nanmean_def
        Let_def)
  with trench_init trench_bulk_dist show ?thesis by simp
qed

section \<open>Bulk distribution: the sum of the result\<close>




section \<open>Bulk mean over a phi range\<close>

lemma select_cols_length: "select_cols d m = Inr d' \<Longrightarrow> length d' = length d"
  by (auto simp: select_cols_def split: if_splits)

lemma scale_loop_length:
  "scale_loop diffs' length' idx d = Inr d' \<Longrightarrow> length d' = length d"
proof (induction idx arbitrary: d)
  case Nil
  then show ?case by simp
next
  case (Cons ii rest)
  from Cons.prems have "ii < length diffs'" by (auto split: if_splits)
  with Cons.prems Cons.IH show ?case
    by (fastforce simp: set_col_def col_def)
qed

lemma bulk_avg_length: "bulk_avg r = Inr b \<Longrightarrow> length b = length (dists r)"
  by (auto simp: bulk_avg_def ebind_eq_Inr split: if_splits
      dest!: select_cols_length scale_loop_length)

lemma bulk_dist_length: "bulk_dist r = Inr d \<Longrightarrow> length d = length (dists r)"
  by (auto simp: bulk_dist_def ebind_eq_Inr dest: bulk_avg_length)

lemma mask_pairs:
  assumes "length xs = length ms"
  shows "map fst (filter snd (zip xs (map P ms))) = map fst (filter (\<lambda>(x, m). P m) (zip xs ms))"
    and "map fst (filter snd (zip ms (map P ms))) = map snd (filter (\<lambda>(x, m). P m) (zip xs ms))"
  using assms by (induction xs ms rule: list_induct2) auto

lemma map2_fst_snd: "map2 f (map fst ps) (map snd ps) = map (\<lambda>(x, m). f x m) ps"
  by (induction ps) auto

lemma map2_conj: "map2 (\<and>) (map P ms) (map Q ms) = map (\<lambda>m. P m \<and> Q m) ms"
  by (induction ms) auto

lemma filter_none: "\<not> list_ex P ms \<Longrightarrow> filter (\<lambda>(x, m). P m) (zip xs ms) = []"
  by (auto simp: list_ex_iff filter_empty_conv dest: set_zip_rightD)

text \<open>
  C4, as the code has it. The argument is \<open>gs_min_max = [g0, g1]\<close>, the minimum and
  the maximum grain size in phi: since phi grows as the grain shrinks, \<open>g0\<close> is the
  upper phi bound and \<open>g1\<close> the lower one. For a constructed record with phi midpoints,
  \<open>bulk_mean\<close> is the weighted mean of the bulk distribution over exactly the bins
  whose midpoint \<open>m\<close> has \<open>g1 \<le> m \<le> g0\<close>, both bounds inclusive: what the
  specification describes for the range \<open>[g1, g0]\<close>. When no bin is selected the
  result is not-a-number.
\<close>

theorem C4_bulk_mean_range:
  assumes "gs_init a rows = Inr r" and "bins_phi_mid r = Some mids" and "bulk_dist r = Inr d"
  shows "bulk_mean r (Some (g0, g1)) = Inr (bulk_mean_spec d mids (g1, g0))
         \<and> (\<not> list_ex (\<lambda>m. fle g1 m \<and> fle m g0) mids
              \<longrightarrow> bulk_mean r (Some (g0, g1)) = Inr NaN)"
proof -
  from gs_init_shape [OF assms(1,2)] bulk_dist_length [OF assms(3)]
  have len: "length d = length mids" by simp
  let ?P = "\<lambda>m. fle m g0 \<and> fle g1 m"
  let ?sel = "filter (\<lambda>(x, m). ?P m) (zip d mids)"
  have filtr: "map2 (\<and>) (map (\<lambda>m. fle m g0) mids) (map (\<lambda>m. fle g1 m) mids) = map ?P mids"
    by (rule map2_conj)
  have sel_d: "mask_select d (map ?P mids) = Inr (map fst ?sel)"
    using len by (simp add: mask_select_def mask_pairs(1) [OF len])
  have sel_m: "mask_select mids (map ?P mids) = Inr (map snd ?sel)"
    by (simp add: mask_select_def mask_pairs(2) [OF len])
  have prod: "np_binop fmul (map fst ?sel) (map snd ?sel) = Inr (map (\<lambda>(x, m). fmul x m) ?sel)"
    by (simp add: np_binop_def map2_fst_snd del: map_map)
  have run: "bulk_mean r (Some (g0, g1))
      = Inr (fdiv (fsum (map (\<lambda>(x, m). fmul x m) ?sel)) (fsum (map fst ?sel)))"
    using assms(2,3) by (simp add: bulk_mean_def Let_def filtr sel_d sel_m prod del: map_map)
  have spec: "bulk_mean_spec d mids (g1, g0)
      = fdiv (fsum (map (\<lambda>(x, m). fmul x m) ?sel)) (fsum (map fst ?sel))"
    by (simp add: bulk_mean_spec_def Let_def conj_commute)
  have empty: "bulk_mean r (Some (g0, g1)) = Inr NaN"
    if "\<not> list_ex (\<lambda>m. fle g1 m \<and> fle m g0) mids"
  proof -
    from that have "\<not> list_ex ?P mids" by (simp add: conj_commute)
    then have "?sel = []" by (rule filter_none)
    with run show ?thesis by (simp add: fsum_def)
  qed
  from run spec empty show ?thesis by simp
qed

theorem C4_bulk_mean_range_witness:
  "gs_init trench_attrs trench_rows = Inr trench
   \<and> bulk_mean trench (Some (Fin 2, Fin 1)) = Inr (Fin (3/2))
   \<and> bulk_mean trench (Some (Fin 1, Fin 2)) = Inr NaN"
proof -
  have "bulk_mean_spec [Fin 25, Fin 75] [Fin (1/2), Fin (3/2)] (Fin 1, Fin 2) = Fin (3/2)"
    by (simp add: bulk_mean_spec_def fsum_def)
  moreover have "bulk_mean_spec [Fin 25, Fin 75] [Fin (1/2), Fin (3/2)] (Fin 2, Fin 1) = NaN"
    by (simp add: bulk_mean_spec_def fsum_def)
  ultimately show ?thesis
    using C4_bulk_mean_range [OF trench_init trench_mids trench_bulk_dist, of "Fin 2" "Fin 1"]
      C4_bulk_mean_range [OF trench_init trench_mids trench_bulk_dist, of "Fin 1" "Fin 2"]
      trench_init
    by simp
qed

text \<open>
  The claim as worded fails on the trench for the range \<open>[low, high] = [1, 2]\<close>: the
  midpoint 3/2 of the second bin lies in it, so the mask of the claim selects that bin
  and the mean is 3/2; the code tests \<open>1 >= m\<close> and \<open>2 <= m\<close>, selects no bin and
  returns not-a-number.
\<close>

theorem C4_low_high_counterexample:
  "gs_init trench_attrs trench_rows = Inr trench
   \<and> bins_phi_mid trench = Some [Fin (1/2), Fin (3/2)]
   \<and> bulk_dist trench = Inr [Fin 25, Fin 75]
   \<and> fle (Fin 1) (Fin (3/2)) \<and> fle (Fin (3/2)) (Fin 2)
   \<and> bulk_mean_spec [Fin 25, Fin 75] [Fin (1/2), Fin (3/2)] (Fin 1, Fin 2) = Fin (3/2)
   \<and> bulk_mean trench (Some (Fin 1, Fin 2)) = Inr NaN"
proof -
  have "bulk_mean trench (Some (Fin 1, Fin 2)) = Inr NaN"
    by (simp add: bulk_mean_def trench_mids trench_bulk_dist mask_select_def np_binop_def fsum_def)
  moreover have "bulk_mean_spec [Fin 25, Fin 75] [Fin (1/2), Fin (3/2)] (Fin 1, Fin 2) = Fin (3/2)"
    by (simp add: bulk_mean_spec_def fsum_def)
  ultimately show ?thesis
    using trench_init trench_mids trench_bulk_dist by simp
qed

section \<open>Bulk distribution on the store: what the assignments reach\<close>

lemma alloc_frame:
  "alloc d s = (a, s1) \<Longrightarrow>
     a = next_addr s \<and> next_addr s1 = Suc (next_addr s) \<and> cells s1 a = d
     \<and> (\<forall>b. b \<noteq> a \<longrightarrow> cells s1 b = cells s b)"
  by (auto simp: alloc_def)

lemma scale_loop_st_frame:
  "scale_loop_st diffs' length' idx a s = Inr s' \<Longrightarrow>
     next_addr s' = next_addr s \<and> (\<forall>b. b \<noteq> a \<longrightarrow> cells s' b = cells s b)"
proof (induction idx arbitrary: s)
  case Nil
  then show ?case by simp
next
  case (Cons ii rest)
  from Cons.prems have inb: "ii < length diffs'"
    by (auto split: if_splits)
  let ?s1 = "s\<lparr>cells := (cells s)
                  (a := set_col (cells s a) ii
                          (map (\<lambda>x. fdiv (fmul x (diffs' ! ii)) length') (col (cells s a) ii)))\<rparr>"
  from Cons.prems inb have "scale_loop_st diffs' length' rest a ?s1 = Inr s'"
    by simp
  from Cons.IH [OF this] show ?case by simp
qed

text \<open>The loop on the store does to the array at \<open>a\<close> what the loop on values does.\<close>

lemma scale_loop_st_refines:
  "scale_loop_st diffs' length' idx a s =
     ebind (scale_loop diffs' length' idx (cells s a)) (\<lambda>d. Inr (s\<lparr>cells := (cells s)(a := d)\<rparr>))"
  by (induction idx arbitrary: s) auto

text \<open>
  The function on the store returns what \<open>bulk_dist\<close> returns on the record whose
  attributes are the object's and whose \<open>dists\<close> is the array the object refers to.
\<close>

lemma bulk_dist_st_value:
  assumes "sample_id self = sample_id r" and "min_depth self = min_depth r"
    and "max_depth self = max_depth r" and "layer self = layer r"
    and "cells s (dists_ref self) = dists r"
  shows "map_sum id fst (bulk_dist_st self s) = bulk_dist r"
proof -
  have dd: "depth_diffs self = depth_diffs r"
    using assms by (simp add: depth_diffs_def)
  show ?thesis
  proof (cases "select_cols (dists r) (map (flt (Fin 0)) (layer r))")
    case (Inl e)
    with assms show ?thesis
      by (simp add: bulk_dist_st_def bulk_dist_def bulk_avg_def select_cols_st_def)
  next
    case (Inr d)
    note sel = this
    show ?thesis
    proof (cases "\<not> list_ex isnan (min_depth r) \<and> 1 < length (sample_id r)")
      case False
      with assms sel show ?thesis
        by (auto simp: bulk_dist_st_def bulk_dist_def bulk_avg_def select_cols_st_def alloc_def Let_def)
    next
      case True
      note weighted = this
      show ?thesis
      proof (cases "depth_diffs r")
        case (Inl e)
        with assms sel weighted dd show ?thesis
          by (simp add: bulk_dist_st_def bulk_dist_def bulk_avg_def select_cols_st_def alloc_def)
      next
        case (Inr diffs')
        show ?thesis
        proof (cases "scale_loop diffs' (fsum diffs') [0..<ncols d] d")
          case (Inl e)
          with assms sel weighted dd Inr show ?thesis
            by (simp add: bulk_dist_st_def bulk_dist_def bulk_avg_def select_cols_st_def alloc_def
                scale_loop_st_refines)
        next
          case (Inr d2)
          with assms sel weighted dd \<open>depth_diffs r = Inr diffs'\<close> show ?thesis
            by (simp add: bulk_dist_st_def bulk_dist_def bulk_avg_def select_cols_st_def alloc_def
                scale_loop_st_refines Let_def)
        qed
      qed
    qed
  qed
qed

text \<open>
  C10. \<open>bulk_dist\<close> has no assignment to an attribute of \<open>self\<close>, and its only
  assignments to an array, \<open>dists[:,ii] = ...\<close>, go to the array that the boolean
  indexing built. Every array that existed before the call, the record's \<open>dists\<close>
  among them, holds afterwards what it held before; \<open>min_depth\<close>, \<open>max_depth\<close> and
  \<open>layer\<close> are only read.
\<close>

theorem C10_bulk_dist_frame:
  assumes "bulk_dist_st self s = Inr (v, s')" and "dists_ref self < next_addr s"
  shows "cells s' (dists_ref self) = cells s (dists_ref self)
         \<and> (\<forall>a. a < next_addr s \<longrightarrow> cells s' a = cells s a)"
proof -
  let ?sel = "select_cols_st (dists_ref self) (map (flt (Fin 0)) (layer self)) s"
  from assms(1) have "\<exists>a s1. ?sel = Inr (a, s1)
      \<and> (s' = s1 \<or> (\<exists>diffs' length' idx. scale_loop_st diffs' length' idx a s1 = Inr s'))"
    by (fastforce simp: bulk_dist_st_def ebind_eq_Inr Let_def split: if_splits)
  then obtain a s1 where sel: "?sel = Inr (a, s1)"
    and rest: "s' = s1 \<or> (\<exists>diffs' length' idx. scale_loop_st diffs' length' idx a s1 = Inr s')"
    by blast
  from sel obtain d where "alloc d s = (a, s1)"
    by (auto simp: select_cols_st_def ebind_eq_Inr)
  from alloc_frame [OF this]
  have a: "a = next_addr s" and s1: "\<forall>b. b \<noteq> a \<longrightarrow> cells s1 b = cells s b"
    by simp_all
  from rest scale_loop_st_frame have "\<forall>b. b \<noteq> a \<longrightarrow> cells s' b = cells s1 b"
    by blast
  with s1 a have "\<forall>b. b < next_addr s \<longrightarrow> cells s' b = cells s b"
    by simp
  with assms(2) show ?thesis by simp
qed

theorem C10_bulk_dist_frame_witness:
  "bulk_dist_st trench_obj trench_store
     = Inr ([Fin 25, Fin 75],
            trench_store\<lparr>cells := (cells trench_store)(1 := [[Fin 20, Fin 0], [Fin 0, Fin 60]]),
                          next_addr := 2\<rparr>)
   \<and> dists_ref trench_obj < next_addr trench_store
   \<and> cells (trench_store\<lparr>cells := (cells trench_store)(1 := [[Fin 20, Fin 0], [Fin 0, Fin 60]]),
                          next_addr := 2\<rparr>) (dists_ref trench_obj)
       = [[Fin 50, Fin 100, Fin 0], [Fin 50, Fin 0, Fin 100]]"
proof -
  have run: "bulk_dist_st trench_obj trench_store
     = Inr ([Fin 25, Fin 75],
            trench_store\<lparr>cells := (cells trench_store)(1 := [[Fin 20, Fin 0], [Fin 0, Fin 60]]),
                          next_addr := 2\<rparr>)"
    by (simp add: bulk_dist_st_def trench_obj_def trench_store_def select_cols_st_def
        select_cols_def alloc_def ncols_def depth_diffs_def fsub_def fsum_def upt_2
        set_col_def col_def nanmean_def)
  have valid: "dists_ref trench_obj < next_addr trench_store"
    by (simp add: trench_obj_def trench_store_def)
  from C10_bulk_dist_frame [OF run valid] run valid show ?thesis
    by (simp add: trench_obj_def trench_store_def)
qed

section \<open>Depth bin edges\<close>

lemma edges_loop_shape:
  assumes "edges_loop ii ps depths = Inr es" and "0 < ii" and "ii + length ps < length depths"
  shows "length es = length depths \<and> es ! 0 = depths ! 0
         \<and> es ! (length depths - 1) = depths ! (length depths - 1)"
  using assms
proof (induction ps arbitrary: ii depths)
  case Nil
  then show ?case by simp
next
  case (Cons p ps)
  obtain n x where p: "p = (n, x)" by (cases p)
  let ?d = "depths[ii := (if feq n x then n else fadd n (fdiv (fsub x n) (Fin 2)))]"
  from Cons.prems p have run: "edges_loop (Suc ii) ps ?d = Inr es"
    by (simp split: if_splits)
  from Cons.prems have "0 < Suc ii" "Suc ii + length ps < length ?d" by simp_all
  from Cons.IH [OF run this] Cons.prems(2,3) show ?case by simp
qed

lemma mask_select_length:
  "mask_select xs m = Inr ys \<Longrightarrow> length ys = length (filter id m) \<and> length m = length xs"
proof -
  assume a: "mask_select xs m = Inr ys"
  then have len: "length m = length xs" and ys: "ys = map fst (filter snd (zip xs m))"
    by (auto simp: mask_select_def split: if_splits)
  from len [symmetric] have "length (filter snd (zip xs m)) = length (filter id m)"
    by (induction xs m rule: list_induct2) auto
  with len ys show ?thesis by simp
qed

text \<open>
  What \<open>_get_depth_bin_edges\<close> returns in general, for \<open>K\<close> samples passing the filter
  out of \<open>N\<close>: the first edge is the first passing \<open>min_depth\<close> and the last edge the
  last passing \<open>max_depth\<close>; the number of edges is \<open>K + 1\<close> when all boundaries match
  and \<open>N + 1\<close> when one does not.
\<close>

lemma depth_edges_shape:
  assumes "get_depth_bin_edges r min_layer = Inr es"
    and "mask_select (min_depth r) (map (flt min_layer) (layer r)) = Inr mins"
    and "mask_select (max_depth r) (map (flt min_layer) (layer r)) = Inr maxs"
  shows "mins \<noteq> [] \<and> hd es = hd mins \<and> last es = last maxs
         \<and> length es = (if array_equal (tl mins) (butlast maxs)
                          then length (filter (flt min_layer) (layer r)) + 1
                          else length (min_depth r) + 1)"
proof -
  have K: "length mins = length (filter (flt min_layer) (layer r))"
       "length maxs = length (filter (flt min_layer) (layer r))"
       "length (min_depth r) = length (layer r)"
    using mask_select_length [OF assms(2)] mask_select_length [OF assms(3)]
    by (simp_all add: filter_map comp_def)
  show ?thesis
  proof (cases "array_equal (tl mins) (butlast maxs)")
    case True
    with assms have "maxs \<noteq> []" and es: "es = mins @ [last maxs]"
      by (auto simp: get_depth_bin_edges_def split: if_splits)
    with K have "mins \<noteq> []" by auto
    with es K True show ?thesis by simp
  next
    case False
    let ?z = "replicate (length (min_depth r) + 1) (Fin 0)"
    let ?d = "(?z[0 := hd mins])[length ?z - 1 := last maxs]"
    from False K have two: "2 \<le> length mins"
      by (cases mins; cases maxs; cases "tl mins"; cases "tl maxs") (auto simp: array_equal_def)
    with K have ne: "mins \<noteq> []" "maxs \<noteq> []" by auto
    from assms False ne have run: "edges_loop 1 (zip (tl mins) (butlast maxs)) ?d = Inr es"
      by (simp add: get_depth_bin_edges_def Let_def)
    have dlen: "length ?d = length (min_depth r) + 1"
      by (simp only: length_list_update length_replicate)
    have KN: "length (filter (flt min_layer) (layer r)) \<le> length (layer r)" by simp
    have "length (zip (tl mins) (butlast maxs)) = length mins - 1"
      using K by simp
    with K two KN dlen have bound: "1 + length (zip (tl mins) (butlast maxs)) < length ?d"
      by linarith
    have pos: "0 < (1::nat)" by simp
    from edges_loop_shape [OF run pos bound]
    have shape: "length es = length ?d" "es ! 0 = ?d ! 0"
        "es ! (length ?d - 1) = ?d ! (length ?d - 1)"
      by blast+
    from shape(1) dlen have len: "length es = length (min_depth r) + 1" by simp
    from K two KN have N: "0 < length (min_depth r)" by linarith
    have "?d ! 0 = hd mins"
      using N by (simp only: length_list_update length_replicate nth_list_update) simp
    with shape(2) have first: "es ! 0 = hd mins" by simp
    have "?d ! (length ?d - 1) = last maxs"
      by (simp only: length_list_update length_replicate nth_list_update) simp
    with shape(3) shape(1) have last: "es ! (length es - 1) = last maxs" by simp
    from len have "es \<noteq> []" by auto
    with first last have "hd es = hd mins" "last es = last maxs"
      by (simp_all add: hd_conv_nth last_conv_nth)
    with ne len False show ?thesis by simp
  qed
qed

text \<open>
  C2, at the depths of the docstring with the first sample filtered out
  (\<open>min_layer = 0\<close>, the value the depth figure passes by default). Two samples pass
  the filter and their boundary does not match (2 against 2.5), so the second branch
  runs. It sizes \<open>depths\<close> from the unfiltered \<open>self.min_depth\<close>: the result has four
  entries for two samples, with a zero that no loop step writes before the last edge.
\<close>

theorem C2_depth_edges_gap_branch_length:
  "get_depth_bin_edges gap_attrs (Fin 0) = Inr [Fin 1, Fin (9/4), Fin 0, Fin (7/2)]
   \<and> length (filter (flt (Fin 0)) (layer gap_attrs)) = 2"
  by (simp add: get_depth_bin_edges_def gap_attrs_def mask_select_def array_equal_def
      fsub_def Let_def)

end
